theory Spec2Isabelle
  imports Complex_Main
begin

section \<open>glkernel: tileable Poisson-disk sampling on the unit square\<close>

text \<open>
  A shallow embedding of \<^verbatim>\<open>source/glkernel/include/glkernel/sample.hpp\<close>: the occupancy
  grid \<^verbatim>\<open>poisson_square_map\<close> (constructor, \<^verbatim>\<open>mask\<close>, \<^verbatim>\<open>masked\<close>) and the sampler
  \<^verbatim>\<open>poisson_square(kernel, min_dist, num_probes)\<close>.

  Modelling decisions:
  \<^item> The scalar type \<^verbatim>\<open>T\<close> is \<open>real\<close>: arithmetic is exact, the rounding of \<^verbatim>\<open>T\<close> is not
    modelled. The properties of the wrap and of \<^verbatim>\<open>mask\<close> at the end record where the rounding
    decides what the code does.
  \<^item> \<^verbatim>\<open>int\<close> and \<^verbatim>\<open>size_t\<close> are \<open>int\<close> and \<open>nat\<close>, without bounds, and the allocation of the
    grid always succeeds. The model is the code while the \<^verbatim>\<open>int\<close> expressions of \<^verbatim>\<open>mask\<close> and
    \<^verbatim>\<open>masked\<close> stay below \<open>2^31\<close> (sides up to 46340) and the \<open>m_side * m_side\<close> cells can be
    allocated; a statement that the call returns for a range of \<open>min_dist\<close> bounds
    \<open>min_dist\<close> from below.
  \<^item> \<^verbatim>\<open>m_none = size_t(-1)\<close> is \<open>None\<close>: a cell holds \<open>None\<close> or \<open>Some k\<close>.
  \<^item> \<^verbatim>\<open>assert\<close> failing is the error \<open>AssertionFailure\<close>. Behaviour that C++ leaves
    undefined is an error value too: indexing a vector outside its range is
    \<open>OutOfBounds\<close>, converting a non-positive or infinite quotient to \<^verbatim>\<open>size_t\<close> in
    the constructor is \<open>BadCast\<close>, reading the never assigned \<^verbatim>\<open>nearest_probe\<close> is
    \<open>UninitializedRead\<close>.
  \<^item> The random generator is a parameter: \<open>pick_draw g n\<close> is the integer drawn in
    iteration \<open>n\<close> of the main loop, \<open>radius_draw g n i\<close> and \<open>angle_draw g n i\<close> are the
    radius and the angle drawn for probe \<open>i\<close> of that iteration. The probe loop runs
    sequentially in index order.
  \<^item> The kernel (\<^verbatim>\<open>tkernel<tvec2>\<close>, of depth 1) is a list of points; \<^verbatim>\<open>kernel.size()\<close>
    is its length.
\<close>

subsection \<open>Vectors and conversions\<close>

type_synonym vec2 = "real \<times> real"

datatype error = AssertionFailure | OutOfBounds | BadCast | UninitializedRead

definition dot :: "vec2 \<Rightarrow> vec2 \<Rightarrow> real" where
  "dot u v = fst u * fst v + snd u * snd v"

definition vsub :: "vec2 \<Rightarrow> vec2 \<Rightarrow> vec2" where
  "vsub u v = (fst u - fst v, snd u - snd v)"

definition vabs :: "vec2 \<Rightarrow> vec2" where
  "vabs u = (\<bar>fst u\<bar>, \<bar>snd u\<bar>)"

text \<open>\<^verbatim>\<open>static_cast<int>(x)\<close> truncates towards zero.\<close>

definition to_int :: "real \<Rightarrow> int" where
  "to_int x = (if 0 \<le> x then \<lfloor>x\<rfloor> else \<lceil>x\<rceil>)"

definition kernel_get :: "vec2 list \<Rightarrow> nat \<Rightarrow> error + vec2" where
  "kernel_get kern i = (if i < length kern then Inr (kern ! i) else Inl OutOfBounds)"

definition kernel_set :: "vec2 list \<Rightarrow> nat \<Rightarrow> vec2 \<Rightarrow> error + vec2 list" where
  "kernel_set kern i p = (if i < length kern then Inr (kern[i := p]) else Inl OutOfBounds)"

subsection \<open>The occupancy grid\<close>

record poisson_square_map =
  m_side :: nat
  m_dist2 :: real
  m_mask :: "nat option list"

text \<open>The constructor: \<^verbatim>\<open>m_side = ceil(sqrt(2.0) / min_dist)\<close>, all cells \<^verbatim>\<open>m_none\<close>.\<close>

definition poisson_square_map_init :: "real \<Rightarrow> error + poisson_square_map" where
  "poisson_square_map_init min_dist =
     (if min_dist \<le> 0 then Inl BadCast
      else let s = nat \<lceil>sqrt 2 / min_dist\<rceil>
           in Inr \<lparr>m_side = s, m_dist2 = min_dist * min_dist, m_mask = replicate (s * s) None\<rparr>)"

text \<open>
  The offset \<^verbatim>\<open>o\<close> computed by \<^verbatim>\<open>mask\<close> (\<open>off\<close> below), and \<^verbatim>\<open>mask\<close> itself, named
  \<open>mask_at\<close> here.\<close>

definition mask_offset :: "poisson_square_map \<Rightarrow> vec2 \<Rightarrow> int" where
  "mask_offset m point =
     (let s = int (m_side m)
      in to_int (snd point * real_of_int s) * s + to_int (fst point * real_of_int s))"

definition mask_at :: "poisson_square_map \<Rightarrow> vec2 \<Rightarrow> nat \<Rightarrow> error + poisson_square_map" where
  "mask_at m point k =
     (let off = mask_offset m point
      in if off < 0 \<or> int (length (m_mask m)) \<le> off then Inl OutOfBounds
         else if m_mask m ! nat off \<noteq> None then Inl AssertionFailure
         else Inr (m\<lparr>m_mask := (m_mask m)[nat off := Some k]\<rparr>))"

text \<open>
  The body of the two nested loops of \<^verbatim>\<open>masked\<close> for the cell \<open>(i, j)\<close>: \<open>Inr True\<close> is
  \<^verbatim>\<open>return true\<close>, \<open>Inr False\<close> is \<^verbatim>\<open>continue\<close> or the end of the body.
\<close>

definition is_corner :: "int \<Rightarrow> int \<Rightarrow> int \<Rightarrow> int \<Rightarrow> bool" where
  "is_corner x y i j \<longleftrightarrow> (j = y - 2 \<or> j = y + 2) \<and> (i = x - 2 \<or> i = x + 2)"

definition masked_cell ::
  "poisson_square_map \<Rightarrow> vec2 \<Rightarrow> vec2 list \<Rightarrow> int \<Rightarrow> int \<Rightarrow> int \<Rightarrow> int \<Rightarrow> error + bool" where
  "masked_cell m probe kern x y i j =
     (let s = int (m_side m)
      in if is_corner x y i j then Inr False
         else
           let i_tiled = (if i < 0 then i + s else i mod s);
               j_tiled = (if j < 0 then j + s else j mod s);
               idx = j_tiled * s + i_tiled
           in if idx < 0 \<or> int (length (m_mask m)) \<le> idx then Inl OutOfBounds
              else case m_mask m ! nat idx of
                     None \<Rightarrow> Inr False
                   | Some oi \<Rightarrow>
                       (case kernel_get kern oi of
                          Inl e \<Rightarrow> Inl e
                        | Inr p \<Rightarrow>
                            let px = (if i < 0 then fst p - 1 else if s \<le> i then fst p + 1 else fst p);
                                py = (if j < 0 then snd p - 1 else if s \<le> j then snd p + 1 else snd p);
                                delta = vsub (px, py) probe
                            in Inr (dot delta delta < m_dist2 m)))"

fun masked_scan ::
  "poisson_square_map \<Rightarrow> vec2 \<Rightarrow> vec2 list \<Rightarrow> int \<Rightarrow> int \<Rightarrow> (int \<times> int) list \<Rightarrow> error + bool" where
  "masked_scan m probe kern x y [] = Inr False"
| "masked_scan m probe kern x y ((i, j) # cs) =
     (case masked_cell m probe kern x y i j of
        Inl e \<Rightarrow> Inl e
      | Inr hit \<Rightarrow> if hit then Inr True else masked_scan m probe kern x y cs)"

text \<open>The cells \<open>(i, j)\<close> in the order the loops visit them: \<open>j\<close> outside, \<open>i\<close> inside.\<close>

definition window :: "int \<Rightarrow> int \<Rightarrow> (int \<times> int) list" where
  "window x y = concat (map (\<lambda>j. map (\<lambda>i. (i, j)) [x - 2..x + 2]) [y - 2..y + 2])"

definition masked :: "poisson_square_map \<Rightarrow> vec2 \<Rightarrow> vec2 list \<Rightarrow> error + bool" where
  "masked m probe kern =
     (let s = int (m_side m);
          x = to_int (fst probe * real_of_int s);
          y = to_int (snd probe * real_of_int s)
      in masked_scan m probe kern x y (window x y))"

subsection \<open>The sampler\<close>

record rng =
  pick_draw :: "nat \<Rightarrow> nat"
  radius_draw :: "nat \<Rightarrow> nat \<Rightarrow> real"
  angle_draw :: "nat \<Rightarrow> nat \<Rightarrow> real"

record sampler_state =
  s_kernel :: "vec2 list"
  s_k :: nat
  s_actives :: "nat list"
  s_occupancy :: poisson_square_map

text \<open>The toroidal wrap of one coordinate, lines 155 to 163.\<close>

definition wrap_coord :: "real \<Rightarrow> real" where
  "wrap_coord c = (if c < 0 then c + 1 else if 1 \<le> c then c - 1 else c)"

definition make_probe :: "vec2 \<Rightarrow> real \<Rightarrow> real \<Rightarrow> vec2" where
  "make_probe active r a = (wrap_coord (fst active + r * cos a), wrap_coord (snd active + r * sin a))"

text \<open>The value stored with a probe that is not masked, line 171 and 173.\<close>

definition probe_dist :: "vec2 \<Rightarrow> vec2 \<Rightarrow> real" where
  "probe_dist active probe = (let delta = vabs (vsub active probe) in dot delta delta)"

definition probe_entry ::
  "poisson_square_map \<Rightarrow> vec2 list \<Rightarrow> vec2 \<Rightarrow> real \<Rightarrow> real \<Rightarrow> error + (vec2 \<times> real)" where
  "probe_entry occ kern active r a =
     (let probe = make_probe active r a
      in case masked occ probe kern of
           Inl e \<Rightarrow> Inl e
         | Inr b \<Rightarrow> Inr (probe, if b then - 1 else probe_dist active probe))"

fun probes_loop ::
  "poisson_square_map \<Rightarrow> vec2 list \<Rightarrow> vec2 \<Rightarrow> (nat \<Rightarrow> real) \<Rightarrow> (nat \<Rightarrow> real) \<Rightarrow> nat list
     \<Rightarrow> error + (vec2 \<times> real) list" where
  "probes_loop occ kern active rs as [] = Inr []"
| "probes_loop occ kern active rs as (i # is) =
     (case probe_entry occ kern active (rs i) (as i) of
        Inl e \<Rightarrow> Inl e
      | Inr pe \<Rightarrow>
          (case probes_loop occ kern active rs as is of
             Inl e \<Rightarrow> Inl e
           | Inr pes \<Rightarrow> Inr (pe # pes)))"

text \<open>
  The selection loop, lines 181 to 193, over the state
  \<open>(nearest_probe, nearest_dist, nearest_found)\<close>.
\<close>

fun nearest_loop ::
  "(vec2 \<times> real) list \<Rightarrow> vec2 option \<times> real \<times> bool \<Rightarrow> vec2 option \<times> real \<times> bool" where
  "nearest_loop [] acc = acc"
| "nearest_loop ((p, new_dist) # ps) (nearest_probe, nearest_dist, nearest_found) =
     (if new_dist < 0 \<or> nearest_dist < new_dist
      then nearest_loop ps (nearest_probe, nearest_dist, nearest_found)
      else nearest_loop ps (Some p, new_dist, True))"

definition erase_at :: "nat \<Rightarrow> 'a list \<Rightarrow> 'a list" where
  "erase_at n xs = take n xs @ drop (Suc n) xs"

text \<open>
  The first half of the body of the main loop, lines 136 to 174: the pick among the
  actives and the probes of iteration \<open>n\<close> with their recorded distances.
\<close>

definition pick_pos :: "rng \<Rightarrow> nat \<Rightarrow> sampler_state \<Rightarrow> nat" where
  "pick_pos g n st = pick_draw g n mod length (s_actives st)"

definition gen_probes :: "rng \<Rightarrow> nat \<Rightarrow> nat \<Rightarrow> sampler_state \<Rightarrow> error + (vec2 \<times> real) list" where
  "gen_probes g num_probes n st =
     (case kernel_get (s_kernel st) (s_actives st ! pick_pos g n st) of
        Inl e \<Rightarrow> Inl e
      | Inr active \<Rightarrow>
          probes_loop (s_occupancy st) (s_kernel st) active
            (radius_draw g n) (angle_draw g n) [0..<num_probes])"

text \<open>
  One run of the body of the main loop; \<open>n\<close> counts the iterations before it. The body
  runs only when \<open>actives\<close> is not empty.
\<close>

definition iteration ::
  "rng \<Rightarrow> real \<Rightarrow> nat \<Rightarrow> nat \<Rightarrow> sampler_state \<Rightarrow> error + sampler_state" where
  "iteration g min_dist num_probes n st =
     (case gen_probes g num_probes n st of
        Inl e \<Rightarrow> Inl e
      | Inr probes \<Rightarrow>
          (case nearest_loop probes (None, 4 * min_dist * min_dist, False) of
             (nearest_probe, nearest_dist, nearest_found) \<Rightarrow>
               if \<not> nearest_found \<and> (0 < length (s_actives st) \<or> 1 < s_k st)
               then Inr (st\<lparr>s_actives := erase_at (pick_pos g n st) (s_actives st)\<rparr>)
               else
                 (case nearest_probe of
                    None \<Rightarrow> Inl UninitializedRead
                  | Some p \<Rightarrow>
                      (case kernel_set (s_kernel st) (Suc (s_k st)) p of
                         Inl e \<Rightarrow> Inl e
                       | Inr kernel' \<Rightarrow>
                           (case mask_at (s_occupancy st) p (Suc (s_k st)) of
                              Inl e \<Rightarrow> Inl e
                            | Inr occ' \<Rightarrow>
                                Inr \<lparr>s_kernel = kernel', s_k = Suc (s_k st),
                                     s_actives = s_actives st @ [Suc (s_k st)],
                                     s_occupancy = occ'\<rparr>)))))"

text \<open>
  The main loop, line 133. The first component of the result counts the iterations
  that were started; an error ends the run.
\<close>

function main_loop ::
  "rng \<Rightarrow> real \<Rightarrow> nat \<Rightarrow> nat \<Rightarrow> sampler_state \<Rightarrow> nat \<times> (error + sampler_state)" where
  "main_loop g min_dist num_probes n st =
     (if s_actives st \<noteq> [] \<and> s_k st < length (s_kernel st) - 1
      then (case iteration g min_dist num_probes n st of
              Inl e \<Rightarrow> (Suc n, Inl e)
            | Inr st' \<Rightarrow> main_loop g min_dist num_probes (Suc n) st')
      else (n, Inr st))"
  by pat_completeness auto

text \<open>
  Termination: an iteration that returns either erases one entry of \<open>actives\<close> or
  increments \<open>k\<close> and appends one entry, so \<open>2 * (kernel.size() - 1 - k) + actives.size()\<close>
  decreases.
\<close>

lemma length_erase_at: "n < length xs \<Longrightarrow> length (erase_at n xs) = length xs - 1"
  by (simp add: erase_at_def)

lemma iteration_cases:
  assumes "iteration g min_dist num_probes n st = Inr st'"
  shows "(s_k st' = s_k st \<and> s_kernel st' = s_kernel st \<and> s_occupancy st' = s_occupancy st \<and>
          s_actives st' = erase_at (pick_pos g n st) (s_actives st))
       \<or> (s_k st' = Suc (s_k st) \<and> s_actives st' = s_actives st @ [Suc (s_k st)] \<and>
          Suc (s_k st) < length (s_kernel st) \<and>
          s_kernel st' = (s_kernel st)[Suc (s_k st) := s_kernel st' ! Suc (s_k st)])"
  using assms
  by (auto simp: iteration_def kernel_set_def
           split: sum.splits prod.splits option.splits if_splits)

definition loop_measure :: "sampler_state \<Rightarrow> nat" where
  "loop_measure st = 2 * (length (s_kernel st) - 1 - s_k st) + length (s_actives st)"

lemma iteration_measure:
  assumes it: "iteration g min_dist num_probes n st = Inr st'"
    and ne: "s_actives st \<noteq> []"
    and lt: "s_k st < length (s_kernel st) - 1"
  shows "loop_measure st' < loop_measure st"
proof -
  from ne have pos: "pick_pos g n st < length (s_actives st)"
    by (simp add: pick_pos_def)
  from iteration_cases[OF it] show ?thesis
  proof
    assume "s_k st' = s_k st \<and> s_kernel st' = s_kernel st \<and> s_occupancy st' = s_occupancy st \<and>
          s_actives st' = erase_at (pick_pos g n st) (s_actives st)"
    with ne pos show ?thesis by (simp add: loop_measure_def length_erase_at)
  next
    assume b: "s_k st' = Suc (s_k st) \<and> s_actives st' = s_actives st @ [Suc (s_k st)] \<and>
          Suc (s_k st) < length (s_kernel st) \<and>
          s_kernel st' = (s_kernel st)[Suc (s_k st) := s_kernel st' ! Suc (s_k st)]"
    then have "length (s_kernel st') = length (s_kernel st)"
      by (metis length_list_update)
    with b lt show ?thesis by (auto simp: loop_measure_def)
  qed
qed

termination main_loop
proof (relation "measure (\<lambda>(g, min_dist, num_probes, n, st). loop_measure st)", goal_cases)
  case 1
  show ?case by simp
next
  case (2 g min_dist num_probes n st st')
  then show ?case by (simp add: iteration_measure)
qed

declare main_loop.simps [simp del]

text \<open>
  \<^verbatim>\<open>poisson_square(kernel, min_dist, num_probes)\<close>, lines 111 to 208: the grid, the seed
  \<open>(0.5, 0.5)\<close> in slot 0, the main loop, and \<open>k + 1\<close> returned with the kernel as the
  call leaves it. \<open>poisson_square_trace\<close> also gives the number of iterations.
\<close>

definition seed :: vec2 where
  "seed = (1 / 2, 1 / 2)"

definition poisson_square_trace ::
  "rng \<Rightarrow> vec2 list \<Rightarrow> real \<Rightarrow> nat \<Rightarrow> nat \<times> (error + sampler_state)" where
  "poisson_square_trace g kern min_dist num_probes =
     (case poisson_square_map_init min_dist of
        Inl e \<Rightarrow> (0, Inl e)
      | Inr occupancy \<Rightarrow>
          (case kernel_set kern 0 seed of
             Inl e \<Rightarrow> (0, Inl e)
           | Inr kern1 \<Rightarrow>
               (case mask_at occupancy (kern1 ! 0) 0 of
                  Inl e \<Rightarrow> (0, Inl e)
                | Inr occ1 \<Rightarrow>
                    main_loop g min_dist num_probes 0
                      \<lparr>s_kernel = kern1, s_k = 0, s_actives = [0], s_occupancy = occ1\<rparr>)))"

definition poisson_square ::
  "rng \<Rightarrow> vec2 list \<Rightarrow> real \<Rightarrow> nat \<Rightarrow> error + (nat \<times> vec2 list)" where
  "poisson_square g kern min_dist num_probes =
     (case snd (poisson_square_trace g kern min_dist num_probes) of
        Inl e \<Rightarrow> Inl e
      | Inr st \<Rightarrow> Inr (s_k st + 1, s_kernel st))"

text \<open>
  The toroidal squared distance of the specification: the least squared Euclidean norm
  of \<open>p - q + t\<close> over the nine translations \<open>t\<close> with components in \<open>{-1, 0, 1}\<close>.
\<close>

definition dist2 :: "vec2 \<Rightarrow> vec2 \<Rightarrow> real" where
  "dist2 p q = (let delta = vsub p q in dot delta delta)"

definition tile_shifts :: "vec2 list" where
  "tile_shifts = [(tx, ty). tx \<leftarrow> [- 1, 0, 1], ty \<leftarrow> [- 1, 0, 1]]"

definition toroidal_dist2 :: "vec2 \<Rightarrow> vec2 \<Rightarrow> real" where
  "toroidal_dist2 p q = Min (set (map (\<lambda>t. dist2 (fst p + fst t, snd p + snd t) q) tile_shifts))"

subsection \<open>Predicates used in the statements\<close>

definition in_unit :: "vec2 \<Rightarrow> bool" where
  "in_unit p \<longleftrightarrow> 0 \<le> fst p \<and> fst p < 1 \<and> 0 \<le> snd p \<and> snd p < 1"

text \<open>A grid as the constructor builds it: a positive side and \<open>m_side * m_side\<close> cells.\<close>

definition grid_ok :: "poisson_square_map \<Rightarrow> bool" where
  "grid_ok m \<longleftrightarrow> 0 < m_side m \<and> length (m_mask m) = m_side m * m_side m"

subsection \<open>Concrete runs\<close>

text \<open>
  Run A: \<open>min_dist = 1/5\<close> (a grid of side 8), one probe per iteration. Iteration 0
  picks the seed and draws radius \<open>49/150\<close> and angle \<open>\<pi>\<close>, which gives \<open>pB\<close>; iteration 1
  picks index 1 and draws radius \<open>7/30\<close> and the angle \<open>2\<pi> - arccos (4/5)\<close>, which
  gives \<open>pP\<close>.
\<close>

definition gA :: rng where
  "gA = \<lparr>pick_draw = (\<lambda>n. n),
          radius_draw = (\<lambda>n i. if n = 0 then 49 / 150 else 7 / 30),
          angle_draw = (\<lambda>n i. if n = 0 then pi else 2 * pi - arccos (4 / 5))\<rparr>"

definition pB :: vec2 where
  "pB = (13 / 75, 1 / 2)"

definition pP :: vec2 where
  "pP = (9 / 25, 9 / 25)"

definition occA0 :: poisson_square_map where
  "occA0 = \<lparr>m_side = 8, m_dist2 = 1 / 25, m_mask = (replicate 64 None)[36 := Some 0]\<rparr>"

definition occA1 :: poisson_square_map where
  "occA1 = \<lparr>m_side = 8, m_dist2 = 1 / 25,
            m_mask = (replicate 64 None)[36 := Some 0, 33 := Some 1]\<rparr>"

definition occA2 :: poisson_square_map where
  "occA2 = \<lparr>m_side = 8, m_dist2 = 1 / 25,
            m_mask = (replicate 64 None)[36 := Some 0, 33 := Some 1, 18 := Some 2]\<rparr>"

text \<open>
  Run B: \<open>min_dist = 2/5\<close> (side 4), one probe per iteration, radius \<open>7/10\<close> and angle
  \<open>0\<close>: the probe \<open>(1.2, 0.5)\<close> wraps to \<open>(0.2, 0.5)\<close>, at distance \<open>0.3\<close> of the seed.
\<close>

definition gB :: rng where
  "gB = \<lparr>pick_draw = (\<lambda>n. 0), radius_draw = (\<lambda>n i. 7 / 10), angle_draw = (\<lambda>n i. 0)\<rparr>"

definition occB0 :: poisson_square_map where
  "occB0 = \<lparr>m_side = 4, m_dist2 = 4 / 25, m_mask = (replicate 16 None)[10 := Some 0]\<rparr>"

text \<open>
  Run C: \<open>min_dist = 3/10\<close> (side 5), one probe per iteration. Iteration 0 picks the
  seed and draws radius \<open>9/20\<close> and angle \<open>0\<close>, which gives \<open>pC\<close>; iteration 1 picks index
  1 and draws radius \<open>1/2\<close> and angle \<open>arccos (4/5)\<close>: the probe \<open>(1.35, 0.8)\<close> wraps to
  \<open>(0.35, 0.8)\<close>.
\<close>

definition gC :: rng where
  "gC = \<lparr>pick_draw = (\<lambda>n. n),
          radius_draw = (\<lambda>n i. if n = 0 then 9 / 20 else 1 / 2),
          angle_draw = (\<lambda>n i. if n = 0 then 0 else arccos (4 / 5))\<rparr>"

definition pC :: vec2 where
  "pC = (19 / 20, 1 / 2)"

definition occC0 :: poisson_square_map where
  "occC0 = \<lparr>m_side = 5, m_dist2 = 9 / 100, m_mask = (replicate 25 None)[12 := Some 0]\<rparr>"

definition occC1 :: poisson_square_map where
  "occC1 = \<lparr>m_side = 5, m_dist2 = 9 / 100,
            m_mask = (replicate 25 None)[12 := Some 0, 14 := Some 1]\<rparr>"

text \<open>
  Run T: \<open>min_dist = 1/5\<close>, two probes per iteration, both at radius \<open>3/10\<close>, the first at
  angle \<open>0\<close> and the second at angle \<open>\<pi>/2\<close>.
\<close>

definition gT :: rng where
  "gT = \<lparr>pick_draw = (\<lambda>n. 0), radius_draw = (\<lambda>n i. 3 / 10),
          angle_draw = (\<lambda>n i. if i = 0 then 0 else pi / 2)\<rparr>"

definition occT1 :: poisson_square_map where
  "occT1 = \<lparr>m_side = 8, m_dist2 = 1 / 25,
            m_mask = (replicate 64 None)[36 := Some 0, 52 := Some 1]\<rparr>"

text \<open>
  Run D: \<open>min_dist = 3/10\<close>, one probe per iteration. Iteration 0 picks the seed and
  draws radius \<open>3/8\<close> and angle \<open>\<pi>/2\<close>, which gives \<open>pD\<close>; iteration 1 picks index 1 and
  draws radius \<open>1/2 + 2\<^sup>-\<^sup>3\<^sup>0\<close> and angle \<open>\<pi>\<close>. \<open>occD1\<close> is the grid with the seed and \<open>pD\<close>,
  \<open>occE1\<close> the grid with the seed and an entry at offset 15.
\<close>

definition gD :: rng where
  "gD = \<lparr>pick_draw = (\<lambda>n. n),
          radius_draw = (\<lambda>n i. if n = 0 then 3 / 8 else 1 / 2 + 1 / 2 ^ 30),
          angle_draw = (\<lambda>n i. if n = 0 then pi / 2 else pi)\<rparr>"

definition pD :: vec2 where
  "pD = (1 / 2, 7 / 8)"

definition occD1 :: poisson_square_map where
  "occD1 = \<lparr>m_side = 5, m_dist2 = 9 / 100,
            m_mask = (replicate 25 None)[12 := Some 0, 22 := Some 1]\<rparr>"

definition occE1 :: poisson_square_map where
  "occE1 = \<lparr>m_side = 5, m_dist2 = 9 / 100,
            m_mask = (replicate 25 None)[12 := Some 0, 15 := Some 1]\<rparr>"

section \<open>Auxiliary lemmas\<close>

subsection \<open>The main loop\<close>

lemma main_loop_count:
  "fst (main_loop g min_dist num_probes n st) \<le> n + loop_measure st"
proof (induction g min_dist num_probes n st rule: main_loop.induct)
  case (1 g min_dist num_probes n st)
  show ?case
  proof (cases "s_actives st \<noteq> [] \<and> s_k st < length (s_kernel st) - 1")
    case False
    then show ?thesis by (subst main_loop.simps) auto
  next
    case True
    then have pos: "0 < loop_measure st" by (simp add: loop_measure_def)
    show ?thesis
    proof (cases "iteration g min_dist num_probes n st")
      case (Inl e)
      with True pos show ?thesis by (subst main_loop.simps) simp
    next
      case (Inr st')
      from iteration_measure[OF Inr] True have "loop_measure st' < loop_measure st" by simp
      moreover from "1.IH"[OF True Inr]
      have "fst (main_loop g min_dist num_probes (Suc n) st') \<le> Suc n + loop_measure st'" .
      ultimately show ?thesis using True Inr by (subst main_loop.simps) simp
    qed
  qed
qed

lemma main_loop_frame:
  assumes "snd (main_loop g min_dist num_probes n st) = Inr st'"
    and "s_k st < length (s_kernel st)"
  shows "length (s_kernel st') = length (s_kernel st) \<and> s_k st \<le> s_k st' \<and>
         s_k st' < length (s_kernel st) \<and>
         (\<forall>i. s_k st' < i \<longrightarrow> s_kernel st' ! i = s_kernel st ! i) \<and>
         (\<forall>i. i \<le> s_k st \<longrightarrow> s_kernel st' ! i = s_kernel st ! i)"
  using assms
proof (induction g min_dist num_probes n st rule: main_loop.induct)
  case (1 g min_dist num_probes n st)
  show ?case
  proof (cases "s_actives st \<noteq> [] \<and> s_k st < length (s_kernel st) - 1")
    case False
    with "1.prems" show ?thesis by (subst (asm) main_loop.simps) auto
  next
    case True
    show ?thesis
    proof (cases "iteration g min_dist num_probes n st")
      case (Inl e)
      with True "1.prems" show ?thesis by (subst (asm) main_loop.simps) simp
    next
      case (Inr st1)
      with True "1.prems"(1) have run: "snd (main_loop g min_dist num_probes (Suc n) st1) = Inr st'"
        by (subst (asm) main_loop.simps) simp
      from iteration_cases[OF Inr] show ?thesis
      proof
        assume a: "s_k st1 = s_k st \<and> s_kernel st1 = s_kernel st \<and> s_occupancy st1 = s_occupancy st \<and>
          s_actives st1 = erase_at (pick_pos g n st) (s_actives st)"
        with "1.prems"(2) have "s_k st1 < length (s_kernel st1)" by simp
        from "1.IH"[OF True Inr run this] a show ?thesis by simp
      next
        assume b: "s_k st1 = Suc (s_k st) \<and> s_actives st1 = s_actives st @ [Suc (s_k st)] \<and>
          Suc (s_k st) < length (s_kernel st) \<and>
          s_kernel st1 = (s_kernel st)[Suc (s_k st) := s_kernel st1 ! Suc (s_k st)]"
        then have len: "length (s_kernel st1) = length (s_kernel st)"
          by (metis length_list_update)
        with b have "s_k st1 < length (s_kernel st1)" by simp
        from "1.IH"[OF True Inr run this]
        have ih: "length (s_kernel st') = length (s_kernel st1)" "s_k st1 \<le> s_k st'"
          "s_k st' < length (s_kernel st1)"
          "\<And>i. s_k st' < i \<Longrightarrow> s_kernel st' ! i = s_kernel st1 ! i"
          "\<And>i. i \<le> s_k st1 \<Longrightarrow> s_kernel st' ! i = s_kernel st1 ! i"
          by simp_all
        have upd: "\<And>i. i \<noteq> Suc (s_k st) \<Longrightarrow> s_kernel st1 ! i = s_kernel st ! i"
          using b by (metis nth_list_update_neq)
        show ?thesis
        proof (intro conjI allI impI)
          show "length (s_kernel st') = length (s_kernel st)" using ih(1) len by simp
          show "s_k st \<le> s_k st'" using ih(2) b by simp
          show "s_k st' < length (s_kernel st)" using ih(3) len by simp
        next
          fix i assume "s_k st' < i"
          with ih(2) b have "i \<noteq> Suc (s_k st)" by simp
          with ih(4)[OF \<open>s_k st' < i\<close>] upd show "s_kernel st' ! i = s_kernel st ! i" by simp
        next
          fix i assume "i \<le> s_k st"
          with b have "i \<le> s_k st1" "i \<noteq> Suc (s_k st)" by simp_all
          with ih(5) upd show "s_kernel st' ! i = s_kernel st ! i" by simp
        qed
      qed
    qed
  qed
qed

subsection \<open>The selection loop\<close>

lemma nearest_loop_skip:
  "\<forall>(p, d)\<in>set ps. d < 0 \<or> nd0 < d \<Longrightarrow> nearest_loop ps (np0, nd0, f0) = (np0, nd0, f0)"
  by (induction ps) auto

lemma nearest_loop_select:
  "\<exists>(p, d)\<in>set ps. 0 \<le> d \<and> d \<le> nd0 \<Longrightarrow>
   \<exists>xs p ys nd. ps = xs @ (p, nd) # ys \<and> nearest_loop ps (np0, nd0, f0) = (Some p, nd, True) \<and>
     0 \<le> nd \<and> nd \<le> nd0 \<and> (\<forall>(q, d)\<in>set xs. d < 0 \<or> nd \<le> d) \<and> (\<forall>(q, d)\<in>set ys. d < 0 \<or> nd < d)"
proof (induction ps arbitrary: np0 nd0 f0)
  case Nil
  then show ?case by simp
next
  case (Cons a rest)
  obtain p d where a: "a = (p, d)" by (cases a)
  show ?case
  proof (cases "d < 0 \<or> nd0 < d")
    case True
    with Cons.prems a have "\<exists>(p, d)\<in>set rest. 0 \<le> d \<and> d \<le> nd0" by auto
    from Cons.IH[OF this, of np0 f0] obtain xs p' ys nd where r: "rest = xs @ (p', nd) # ys"
      "nearest_loop rest (np0, nd0, f0) = (Some p', nd, True)" "0 \<le> nd" "nd \<le> nd0"
      "\<forall>(q, d)\<in>set xs. d < 0 \<or> nd \<le> d" "\<forall>(q, d)\<in>set ys. d < 0 \<or> nd < d" by blast
    have "a # rest = (a # xs) @ (p', nd) # ys" using r(1) by simp
    moreover have "nearest_loop (a # rest) (np0, nd0, f0) = (Some p', nd, True)"
      using True a r(2) by simp
    moreover have "\<forall>(q, d)\<in>set (a # xs). d < 0 \<or> nd \<le> d" using True a r(4,5) by auto
    ultimately show ?thesis using r(3,4,6) by blast
  next
    case False
    then have el: "0 \<le> d" "d \<le> nd0" by auto
    show ?thesis
    proof (cases "\<exists>(q, d')\<in>set rest. 0 \<le> d' \<and> d' \<le> d")
      case True
      from Cons.IH[OF this, of "Some p" True] obtain xs p' ys nd where r: "rest = xs @ (p', nd) # ys"
        "nearest_loop rest (Some p, d, True) = (Some p', nd, True)" "0 \<le> nd" "nd \<le> d"
        "\<forall>(q, d)\<in>set xs. d < 0 \<or> nd \<le> d" "\<forall>(q, d)\<in>set ys. d < 0 \<or> nd < d" by blast
      have "a # rest = (a # xs) @ (p', nd) # ys" using r(1) by simp
      moreover have "nearest_loop (a # rest) (np0, nd0, f0) = (Some p', nd, True)"
        using False a r(2) by simp
      moreover have "\<forall>(q, d)\<in>set (a # xs). d < 0 \<or> nd \<le> d" using a r(4,5) by auto
      moreover have "nd \<le> nd0" using r(4) el by simp
      ultimately show ?thesis using r(3,6) by blast
    next
      case no: False
      then have sk: "\<forall>(q, d')\<in>set rest. d' < 0 \<or> d < d'" by auto
      have "nearest_loop (a # rest) (np0, nd0, f0) = (Some p, d, True)"
        using False a nearest_loop_skip[OF sk] by simp
      moreover have "a # rest = [] @ (p, d) # rest" using a by simp
      ultimately show ?thesis using el sk by (metis (no_types, lifting) empty_iff list.set(1))
    qed
  qed
qed

subsection \<open>Geometry of probes and of the grid\<close>








lemma init_grid_ok:
  assumes "0 < min_dist"
  shows "\<exists>m. poisson_square_map_init min_dist = Inr m \<and> grid_ok m \<and> (\<forall>i < length (m_mask m). m_mask m ! i = None)"
proof -
  have "0 < sqrt 2 / min_dist" using assms by simp
  then have "0 < \<lceil>sqrt 2 / min_dist\<rceil>" by (simp add: less_ceiling_iff)
  then show ?thesis using assms by (simp add: poisson_square_map_init_def grid_ok_def Let_def)
qed

lemma seed_in_unit: "in_unit seed"
  by (simp add: in_unit_def seed_def)

lemma seed_mask:
  assumes "grid_ok m" and "\<forall>i<length (m_mask m). m_mask m ! i = None"
  shows "mask_at m seed 0 = Inr (m\<lparr>m_mask := (m_mask m)[nat (mask_offset m seed) := Some 0]\<rparr>)"
proof -
  define s where "s = int (m_side m)"
  define h where "h = to_int (1 / 2 * real_of_int s)"
  have s: "0 < s" using assms(1) by (simp add: s_def grid_ok_def)
  have "1 / 2 * real_of_int s < real_of_int s" using s by simp
  then have "\<lfloor>1 / 2 * real_of_int s\<rfloor> < s" by (simp add: floor_less_iff)
  moreover have "0 \<le> \<lfloor>1 / 2 * real_of_int s\<rfloor>" using s by simp
  ultimately have h: "0 \<le> h" "h \<le> s - 1" using s by (simp_all add: h_def to_int_def)
  have off: "mask_offset m seed = h * s + h"
    by (simp add: mask_offset_def seed_def s_def h_def)
  have "h * s \<le> (s - 1) * s" using h s by (intro mult_right_mono) simp_all
  then have "h * s + h < s * s" using h by (simp add: algebra_simps)
  moreover have "0 \<le> h * s + h" using h s by simp
  moreover have "int (length (m_mask m)) = s * s" using assms(1) by (simp add: grid_ok_def s_def)
  ultimately have b: "0 \<le> mask_offset m seed" "mask_offset m seed < int (length (m_mask m))"
    using off by simp_all
  then have "nat (mask_offset m seed) < length (m_mask m)" by (simp add: nat_less_iff)
  with assms(2) have "m_mask m ! nat (mask_offset m seed) = None" by simp
  with b show ?thesis by (simp add: mask_at_def)
qed

subsection \<open>Evaluating the concrete runs\<close>

lemma sqrt2_lower: "7 / 5 < sqrt 2"
  by (rule real_less_rsqrt) (simp add: power2_eq_square)

lemma sqrt2_upper: "sqrt 2 < 3 / 2"
  by (rule real_less_lsqrt) (simp_all add: power2_eq_square)

lemma side_fifth: "\<lceil>sqrt 2 * 5\<rceil> = (8::int)"
  using sqrt2_lower sqrt2_upper by (intro ceiling_unique) simp_all

lemma side_two_fifths: "\<lceil>sqrt 2 * 5 / 2\<rceil> = (4::int)"
  using sqrt2_lower sqrt2_upper by (intro ceiling_unique) simp_all

lemma side_three_tenths: "\<lceil>sqrt 2 * 10 / 3\<rceil> = (5::int)"
  using sqrt2_lower sqrt2_upper by (intro ceiling_unique) simp_all

lemma side_one: "\<lceil>sqrt 2\<rceil> = (2::int)"
  using sqrt2_lower sqrt2_upper by (intro ceiling_unique) simp_all

lemma init_fifth:
  "poisson_square_map_init (1 / 5) =
     Inr \<lparr>m_side = 8, m_dist2 = 1 / 25, m_mask = replicate 64 None\<rparr>"
  by (simp add: poisson_square_map_init_def side_fifth)

lemma init_two_fifths:
  "poisson_square_map_init (2 / 5) =
     Inr \<lparr>m_side = 4, m_dist2 = 4 / 25, m_mask = replicate 16 None\<rparr>"
  by (simp add: poisson_square_map_init_def side_two_fifths)

lemma init_three_tenths:
  "poisson_square_map_init (3 / 10) =
     Inr \<lparr>m_side = 5, m_dist2 = 9 / 100, m_mask = replicate 25 None\<rparr>"
  by (simp add: poisson_square_map_init_def side_three_tenths)

lemma init_one:
  "poisson_square_map_init 1 = Inr \<lparr>m_side = 2, m_dist2 = 1, m_mask = replicate 4 None\<rparr>"
  by (simp add: poisson_square_map_init_def side_one)

lemma upto5: "[x - 2..x + 2] = [x - 2, x - 1, x, x + 1, x + 2]"
proof -
  have "[x - 2..x + 2] = (x - 2) # [x - 1..x + 2]" by (simp add: upto_rec1)
  also have "[x - 1..x + 2] = (x - 1) # [x..x + 2]" by (simp add: upto_rec1)
  also have "[x..x + 2] = x # [x + 1..x + 2]" by (simp add: upto_rec1)
  also have "[x + 1..x + 2] = (x + 1) # [x + 2..x + 2]" by (simp add: upto_rec1)
  finally show ?thesis by simp
qed

lemma window_cells:
  "window x y =
    [(x - 2, y - 2), (x - 1, y - 2), (x, y - 2), (x + 1, y - 2), (x + 2, y - 2), (x -
     2, y - 1), (x - 1, y - 1), (x, y - 1), (x + 1, y - 1), (x + 2, y - 1), (x - 2,
     y), (x - 1, y), (x, y), (x + 1, y), (x + 2, y), (x - 2, y + 1), (x - 1, y + 1),
     (x, y + 1), (x + 1, y + 1), (x + 2, y + 1), (x - 2, y + 2), (x - 1, y + 2), (x,
     y + 2), (x + 1, y + 2), (x + 2, y + 2)]"
  by (simp add: window_def upto5)

lemma window_examined: "length (filter (\<lambda>(i, j). \<not> is_corner x y i j) (window x y)) = 21"
  by (simp add: window_cells is_corner_def)

lemma sin_arccos_four_fifths: "sin (arccos (4 / 5)) = 3 / 5"
proof -
  have "sqrt (1 - (4 / 5)\<^sup>2) = sqrt ((3 / 5)\<^sup>2)" by (simp add: power2_eq_square)
  also have "\<dots> = 3 / 5" by (simp del: power_divide)
  finally show ?thesis by (simp add: sin_arccos_abs)
qed

lemma arccos_four_fifths_range: "0 < arccos (4 / 5) \<and> arccos (4 / 5) < pi"
  by (rule arccos_lt_bounded) simp_all

lemmas eval_defs = masked_def to_int_def window_cells masked_cell_def is_corner_def
  kernel_get_def kernel_set_def vsub_def vabs_def dot_def seed_def make_probe_def
  wrap_coord_def probe_entry_def probe_dist_def mask_at_def mask_offset_def

text \<open>Run A.\<close>

lemma mask_seed_fifth:
  "mask_at \<lparr>m_side = 8, m_dist2 = 1 / 25, m_mask = replicate 64 None\<rparr> seed 0 = Inr occA0"
  by (simp add: mask_at_def mask_offset_def seed_def to_int_def occA0_def)

lemma probe_A0:
  "probe_entry occA0 [seed, q1, q2] seed (49 / 150) pi = Inr (pB, (49 / 150)\<^sup>2)"
  by (simp add: eval_defs occA0_def pB_def power2_eq_square)

lemma probe_A1:
  "probe_entry occA1 [seed, pB, q2] pB (7 / 30) (2 * pi - arccos (4 / 5)) =
     Inr (pP, (7 / 30)\<^sup>2)"
  by (simp add: eval_defs occA1_def pB_def pP_def power2_eq_square sin_arccos_four_fifths)

lemma mask_A0: "mask_at occA0 pB (Suc 0) = Inr occA1"
  by (simp add: mask_at_def mask_offset_def to_int_def pB_def occA0_def occA1_def)

lemma mask_A1: "mask_at occA1 pP (Suc (Suc 0)) = Inr occA2"
  by (simp add: mask_at_def mask_offset_def to_int_def pP_def occA1_def occA2_def
        numeral_2_eq_2)

lemma gen_A0:
  "gen_probes gA (Suc 0) 0
     \<lparr>s_kernel = [seed, q1, q2], s_k = 0, s_actives = [0], s_occupancy = occA0\<rparr> =
   Inr [(pB, (49 / 150)\<^sup>2)]"
  by (simp add: gen_probes_def pick_pos_def gA_def probe_A0 kernel_get_def)

lemma iter_A0:
  "iteration gA (1 / 5) (Suc 0) 0
     \<lparr>s_kernel = [seed, q1, q2], s_k = 0, s_actives = [0], s_occupancy = occA0\<rparr> =
   Inr \<lparr>s_kernel = [seed, pB, q2], s_k = Suc 0, s_actives = [0, Suc 0], s_occupancy = occA1\<rparr>"
  by (simp add: iteration_def gen_A0 mask_A0 kernel_set_def power2_eq_square)

lemma gen_A1:
  "gen_probes gA (Suc 0) (Suc 0)
     \<lparr>s_kernel = [seed, pB, q2], s_k = Suc 0, s_actives = [0, Suc 0], s_occupancy = occA1\<rparr> =
   Inr [(pP, (7 / 30)\<^sup>2)]"
  by (simp add: gen_probes_def pick_pos_def gA_def probe_A1 kernel_get_def)

lemma iter_A1:
  "iteration gA (1 / 5) (Suc 0) (Suc 0)
     \<lparr>s_kernel = [seed, pB, q2], s_k = Suc 0, s_actives = [0, Suc 0], s_occupancy = occA1\<rparr> =
   Inr \<lparr>s_kernel = [seed, pB, pP], s_k = 2, s_actives = [0, 1, 2], s_occupancy = occA2\<rparr>"
  by (simp add: iteration_def gen_A1 mask_A1 kernel_set_def power2_eq_square)

lemma run_A:
  "poisson_square_trace gA [q0, q1, q2] (1 / 5) (Suc 0) =
     (2, Inr \<lparr>s_kernel = [seed, pB, pP], s_k = 2, s_actives = [0, 1, 2], s_occupancy = occA2\<rparr>)"
  by (simp add: poisson_square_trace_def init_fifth kernel_set_def mask_seed_fifth
        main_loop.simps iter_A0 iter_A1)

lemma draws_A:
  "1 / 5 \<le> radius_draw gA n i \<and> radius_draw gA n i < 2 * (1 / 5) \<and>
   0 \<le> angle_draw gA n i \<and> angle_draw gA n i < 2 * pi"
  using arccos_four_fifths_range by (simp add: gA_def)

text \<open>Run B.\<close>

lemma mask_seed_two_fifths:
  "mask_at \<lparr>m_side = 4, m_dist2 = 4 / 25, m_mask = replicate 16 None\<rparr> seed 0 = Inr occB0"
  by (simp add: mask_at_def mask_offset_def seed_def to_int_def occB0_def)

lemma probe_B0: "probe_entry occB0 [seed, q1] seed (7 / 10) 0 = Inr ((1 / 5, 1 / 2), - 1)"
  by (simp add: eval_defs occB0_def)

lemma gen_B0:
  "gen_probes gB (Suc 0) 0
     \<lparr>s_kernel = [seed, q1], s_k = 0, s_actives = [0], s_occupancy = occB0\<rparr> =
   Inr [((1 / 5, 1 / 2), - 1)]"
  by (simp add: gen_probes_def pick_pos_def gB_def probe_B0 kernel_get_def)

lemma iter_B0:
  "iteration gB (2 / 5) (Suc 0) 0
     \<lparr>s_kernel = [seed, q1], s_k = 0, s_actives = [0], s_occupancy = occB0\<rparr> =
   Inr \<lparr>s_kernel = [seed, q1], s_k = 0, s_actives = [], s_occupancy = occB0\<rparr>"
  unfolding iteration_def gen_B0 by (simp add: pick_pos_def gB_def erase_at_def)

lemma run_B:
  "poisson_square_trace gB [q0, q1] (2 / 5) (Suc 0) =
     (1, Inr \<lparr>s_kernel = [seed, q1], s_k = 0, s_actives = [], s_occupancy = occB0\<rparr>)"
  by (simp add: poisson_square_trace_def init_two_fifths kernel_set_def mask_seed_two_fifths
        main_loop.simps iter_B0)

text \<open>Run C.\<close>

lemma mask_seed_three_tenths:
  "mask_at \<lparr>m_side = 5, m_dist2 = 9 / 100, m_mask = replicate 25 None\<rparr> seed 0 = Inr occC0"
  by (simp add: mask_at_def mask_offset_def seed_def to_int_def occC0_def)






lemma probe_C1:
  "probe_entry occC1 [seed, pC] pC (1 / 2) (arccos (4 / 5)) = Inr ((7 / 20, 4 / 5), 9 / 20)"
  by (simp add: eval_defs occC1_def pC_def power2_eq_square sin_arccos_four_fifths)

lemma gen_C1:
  "gen_probes gC (Suc 0) (Suc 0)
     \<lparr>s_kernel = [seed, pC], s_k = Suc 0, s_actives = [0, Suc 0], s_occupancy = occC1\<rparr> =
   Inr [((7 / 20, 4 / 5), 9 / 20)]"
  by (simp add: gen_probes_def pick_pos_def gC_def probe_C1 kernel_get_def)


text \<open>Run T.\<close>

lemma probe_T0:
  "probe_entry occA0 [seed, q1] seed (3 / 10) 0 = Inr ((4 / 5, 1 / 2), 9 / 100)"
  by (simp add: eval_defs occA0_def power2_eq_square)

lemma probe_T1:
  "probe_entry occA0 [seed, q1] seed (3 / 10) (pi / 2) = Inr ((1 / 2, 4 / 5), 9 / 100)"
  by (simp add: eval_defs occA0_def power2_eq_square)

lemma gen_T:
  "gen_probes gT 2 0
     \<lparr>s_kernel = [seed, q1], s_k = 0, s_actives = [0], s_occupancy = occA0\<rparr> =
   Inr [((4 / 5, 1 / 2), 9 / 100), ((1 / 2, 4 / 5), 9 / 100)]"
  by (simp add: gen_probes_def pick_pos_def gT_def probe_T0 probe_T1 kernel_get_def upt_rec
        numeral_2_eq_2)

lemma mask_T: "mask_at occA0 (1 / 2, 4 / 5) (Suc 0) = Inr occT1"
  by (simp add: mask_at_def mask_offset_def to_int_def occA0_def occT1_def)

lemma iter_T:
  "iteration gT (1 / 5) 2 0
     \<lparr>s_kernel = [seed, q1], s_k = 0, s_actives = [0], s_occupancy = occA0\<rparr> =
   Inr \<lparr>s_kernel = [seed, (1 / 2, 4 / 5)], s_k = Suc 0, s_actives = [0, Suc 0],
        s_occupancy = occT1\<rparr>"
  by (simp add: iteration_def gen_T mask_T kernel_set_def)

text \<open>Run D.\<close>

lemma probe_D0:
  "probe_entry occC0 [seed, q1, q2] seed (3 / 8) (pi / 2) = Inr (pD, (3 / 8)\<^sup>2)"
  by (simp add: eval_defs occC0_def pD_def power2_eq_square)

lemma mask_D0: "mask_at occC0 pD (Suc 0) = Inr occD1"
  by (simp add: mask_at_def mask_offset_def to_int_def pD_def occC0_def occD1_def)

lemma gen_D0:
  "gen_probes gD (Suc 0) 0
     \<lparr>s_kernel = [seed, q1, q2], s_k = 0, s_actives = [0], s_occupancy = occC0\<rparr> =
   Inr [(pD, (3 / 8)\<^sup>2)]"
  by (simp add: gen_probes_def pick_pos_def gD_def probe_D0 kernel_get_def)

lemma iter_D0:
  "iteration gD (3 / 10) (Suc 0) 0
     \<lparr>s_kernel = [seed, q1, q2], s_k = 0, s_actives = [0], s_occupancy = occC0\<rparr> =
   Inr \<lparr>s_kernel = [seed, pD, q2], s_k = Suc 0, s_actives = [0, Suc 0], s_occupancy = occD1\<rparr>"
  by (simp add: iteration_def gen_D0 mask_D0 kernel_set_def power2_eq_square)

lemma masked_D1: "masked occD1 (1, 7 / 8) [seed, pD, q2] = Inr False"
  by (simp add: eval_defs occD1_def pD_def)

lemma mask_D1: "mask_at occD1 (1, 7 / 8) k = Inl OutOfBounds"
  by (simp add: mask_at_def mask_offset_def to_int_def occD1_def)

lemma masked_E0: "masked occC0 (1, 1 / 2) [seed, q1] = Inr False"
  by (simp add: eval_defs occC0_def)

lemma mask_E0: "mask_at occC0 (1, 1 / 2) (Suc 0) = Inr occE1"
  by (simp add: mask_at_def mask_offset_def to_int_def occC0_def occE1_def)

section \<open>Properties of the sampler\<close>

text \<open>
  C1 (violated by the code). The statement: in every run with \<open>N \<ge> 1\<close>, \<open>0 < min_dist < 1\<close> and
  \<open>num_probes \<ge> 1\<close>, any two distinct accepted points have toroidal squared distance at
  least \<open>min_dist\<^sup>2\<close>. Run A is a run of the code where it fails: with \<open>N = 3\<close>,
  \<open>min_dist = 1/5\<close>, one probe per iteration and draws inside their ranges, the call
  returns 3 with the points \<open>(0.5, 0.5)\<close>, \<open>(13/75, 0.5)\<close> and \<open>(0.36, 0.36)\<close>, and the
  first and the third are at squared distance \<open>0.0392 < 0.04\<close>. The seed lies in the
  corner cell \<open>(4, 4)\<close> of the window of the probe \<open>(0.36, 0.36)\<close>, whose cell is \<open>(2, 2)\<close>,
  and \<open>masked\<close> skips that cell.
\<close>

theorem min_dist_violated_run_A:
  "poisson_square gA [(0, 0), (0, 0), (0, 0)] (1 / 5) 1 = Inr (3, [seed, pB, pP]) \<and>
   toroidal_dist2 pP seed < (1 / 5) * (1 / 5) \<and>
   (\<forall>n i. 1 / 5 \<le> radius_draw gA n i \<and> radius_draw gA n i < 2 * (1 / 5) \<and>
          0 \<le> angle_draw gA n i \<and> angle_draw gA n i < 2 * pi)"
proof -
  have "poisson_square gA [(0, 0), (0, 0), (0, 0)] (1 / 5) 1 = Inr (3, [seed, pB, pP])"
    by (simp add: poisson_square_def run_A)
  moreover have "toroidal_dist2 pP seed < (1 / 5) * (1 / 5)"
    by (simp add: toroidal_dist2_def tile_shifts_def dist2_def vsub_def dot_def seed_def pP_def)
  ultimately show ?thesis using draws_A by blast
qed

text \<open>
  C4 (violated by the code, by the same defect as C1). The statement: a point stored in one of the four
  outer corner cells of the window is farther than \<open>min_dist\<close> from the probe, so that
  skipping these cells loses no collision. With \<open>min_dist = 1/5\<close> the grid has side 8;
  the seed \<open>(0.5, 0.5)\<close> is in cell \<open>(4, 4)\<close>, the probe \<open>(0.36, 0.36)\<close> in cell \<open>(2, 2)\<close>,
  so the seed's cell is the corner \<open>(x + 2, y + 2)\<close>; the squared distance is
  \<open>0.0392 < 0.04\<close>, and \<open>masked\<close> answers false. What does hold is the count:
  the loops examine 21 of the 25 cells (lemma \<open>window_examined\<close>).
\<close>

theorem corner_cell_within_min_dist:
  "poisson_square_map_init (1 / 5) =
     Inr \<lparr>m_side = 8, m_dist2 = 1 / 25, m_mask = replicate 64 None\<rparr> \<and>
   mask_at \<lparr>m_side = 8, m_dist2 = 1 / 25, m_mask = replicate 64 None\<rparr> seed 0 = Inr occA0 \<and>
   to_int (fst seed * 8) = 4 \<and> to_int (snd seed * 8) = 4 \<and>
   to_int (fst pP * 8) = 2 \<and> to_int (snd pP * 8) = 2 \<and> is_corner 2 2 4 4 \<and>
   dist2 seed pP < m_dist2 occA0 \<and>
   masked occA0 pP [seed, (0, 0), (0, 0)] = Inr False"
proof -
  have "masked occA0 pP [seed, (0, 0), (0, 0)] = Inr False"
    by (simp add: eval_defs occA0_def pP_def)
  moreover have "dist2 seed pP < m_dist2 occA0"
    by (simp add: dist2_def vsub_def dot_def occA0_def seed_def pP_def)
  moreover have "to_int (fst seed * 8) = 4 \<and> to_int (snd seed * 8) = 4 \<and>
      to_int (fst pP * 8) = 2 \<and> to_int (snd pP * 8) = 2 \<and> is_corner 2 2 4 4"
    by (simp add: to_int_def seed_def pP_def is_corner_def)
  ultimately show ?thesis using init_fifth mask_seed_fifth by blast
qed

text \<open>
  C10. For \<open>N \<ge> 1\<close> and any draws the main loop ends: \<open>main_loop\<close> is a total function
  (its termination proof uses \<open>loop_measure\<close>), an iteration that returns either
  increments \<open>k\<close> to a value of at most \<open>N - 1\<close> and appends it to the actives, or leaves
  \<open>k\<close> and erases the picked entry, and the number of iterations is at most \<open>2N - 1\<close>.
\<close>

theorem main_loop_terminates:
  assumes "1 \<le> length kern"
  shows "fst (poisson_square_trace g kern min_dist num_probes) \<le> 2 * length kern - 1 \<and>
    (\<forall>n st st'. s_actives st \<noteq> [] \<longrightarrow> iteration g min_dist num_probes n st = Inr st' \<longrightarrow>
       ((s_k st' = Suc (s_k st) \<and> s_k st' \<le> length (s_kernel st) - 1 \<and>
         s_actives st' = s_actives st @ [s_k st'])
        \<or> (s_k st' = s_k st \<and> s_actives st' = erase_at (pick_pos g n st) (s_actives st) \<and>
           length (s_actives st') = length (s_actives st) - 1)))"
proof (intro conjI allI impI)
  have "fst (main_loop g min_dist num_probes 0
          \<lparr>s_kernel = kern[0 := seed], s_k = 0, s_actives = [0], s_occupancy = occ1\<rparr>)
        \<le> 2 * length kern - 1" for occ1
    using main_loop_count[of g min_dist num_probes 0
          "\<lparr>s_kernel = kern[0 := seed], s_k = 0, s_actives = [0], s_occupancy = occ1\<rparr>"] assms
    by (simp add: loop_measure_def)
  then show "fst (poisson_square_trace g kern min_dist num_probes) \<le> 2 * length kern - 1"
    by (auto simp: poisson_square_trace_def kernel_set_def split: sum.splits)
next
  fix n st st'
  assume ne: "s_actives st \<noteq> []" and it: "iteration g min_dist num_probes n st = Inr st'"
  from ne have "pick_pos g n st < length (s_actives st)" by (simp add: pick_pos_def)
  with iteration_cases[OF it]
  show "(s_k st' = Suc (s_k st) \<and> s_k st' \<le> length (s_kernel st) - 1 \<and>
         s_actives st' = s_actives st @ [s_k st'])
        \<or> (s_k st' = s_k st \<and> s_actives st' = erase_at (pick_pos g n st) (s_actives st) \<and>
           length (s_actives st') = length (s_actives st) - 1)"
    by (auto simp: length_erase_at)
qed

theorem main_loop_terminates_witness:
  "1 \<le> length [(0, 0), (0, 0), (0, 0) :: vec2] \<and>
   fst (poisson_square_trace gA [(0, 0), (0, 0), (0, 0)] (1 / 5) 1) = 2 \<and>
   fst (poisson_square_trace gA [(0, 0), (0, 0), (0, 0)] (1 / 5) 1) \<le> 2 * 3 - 1 \<and>
   iteration gA (1 / 5) 1 0
     \<lparr>s_kernel = [seed, (0, 0), (0, 0)], s_k = 0, s_actives = [0], s_occupancy = occA0\<rparr> =
   Inr \<lparr>s_kernel = [seed, pB, (0, 0)], s_k = 1, s_actives = [0, 1], s_occupancy = occA1\<rparr>"
  using main_loop_terminates[of "[(0, 0), (0, 0), (0, 0)]" gA "1 / 5" 1]
  by (simp add: run_A iter_A0)

text \<open>
  C9. When the call returns the count \<open>c\<close>, the kernel has its length, \<open>c\<close> is between 1
  and \<open>N\<close>, and every slot from \<open>c\<close> on holds what it held before the call.
\<close>

theorem poisson_square_frame:
  assumes "poisson_square g kern min_dist num_probes = Inr (c, kern')"
  shows "length kern' = length kern \<and> 1 \<le> c \<and> c \<le> length kern \<and>
         (\<forall>i. c \<le> i \<and> i < length kern \<longrightarrow> kern' ! i = kern ! i)"
proof -
  from assms obtain st where st: "snd (poisson_square_trace g kern min_dist num_probes) = Inr st"
    and c: "c = s_k st + 1" and k': "kern' = s_kernel st"
    by (auto simp: poisson_square_def split: sum.splits)
  from st obtain occ1 where ne: "0 < length kern"
    and run: "snd (main_loop g min_dist num_probes 0
          \<lparr>s_kernel = kern[0 := seed], s_k = 0, s_actives = [0], s_occupancy = occ1\<rparr>) = Inr st"
    by (auto simp: poisson_square_trace_def kernel_set_def split: sum.splits if_splits)
  from main_loop_frame[OF run] ne
  have "length (s_kernel st) = length kern" "s_k st < length kern"
    "\<And>i. s_k st < i \<Longrightarrow> s_kernel st ! i = kern[0 := seed] ! i"
    by simp_all
  with c k' ne show ?thesis by auto
qed

theorem poisson_square_frame_witness:
  "poisson_square gB [(0, 0), (3, 3)] (2 / 5) 1 = Inr (1, [seed, (3, 3)]) \<and>
   length [seed, (3, 3)] = length [(0, 0), (3, 3) :: vec2] \<and>
   [seed, (3, 3)] ! 1 = [(0, 0), (3, 3)] ! 1"
proof -
  have r: "poisson_square gB [(0, 0), (3, 3)] (2 / 5) 1 = Inr (1, [seed, (3, 3)])"
    by (simp add: poisson_square_def run_B)
  from poisson_square_frame[OF r] r show ?thesis by simp
qed

text \<open>
  C2 (as specified, refuted). The statement: when no probe is accepted, the picked index is erased if
  and only if the active list has more than one element or \<open>k > 1\<close>, and is kept
  otherwise. The guard of the code is \<^verbatim>\<open>actives.size() > 0 || k > 1\<close>, which holds whenever
  the body runs. In run B the seed is alone, \<open>k = 0\<close>, the only probe is masked, and the
  seed is erased: the call returns 1 after one iteration.
\<close>

theorem exhausted_seed_counterexample:
  "gen_probes gB 1 0
     \<lparr>s_kernel = [seed, (0, 0)], s_k = 0, s_actives = [0], s_occupancy = occB0\<rparr> =
     Inr [((1 / 5, 1 / 2), - 1)] \<and>
   nearest_loop [((1 / 5, 1 / 2), - 1)] (None, 4 * (2 / 5) * (2 / 5), False) =
     (None, 4 * (2 / 5) * (2 / 5), False) \<and>
   \<not> (1 < length [0 :: nat] \<or> 1 < (0 :: nat)) \<and>
   iteration gB (2 / 5) 1 0
     \<lparr>s_kernel = [seed, (0, 0)], s_k = 0, s_actives = [0], s_occupancy = occB0\<rparr> =
     Inr \<lparr>s_kernel = [seed, (0, 0)], s_k = 0, s_actives = [], s_occupancy = occB0\<rparr> \<and>
   poisson_square gB [(0, 0), (0, 0)] (2 / 5) 1 = Inr (1, [seed, (0, 0)])"
  by (simp add: gen_B0 iter_B0 poisson_square_def run_B)

text \<open>
  C2 (as the code behaves): in an iteration of the main loop (the active list is not empty) where
  no probe is accepted, the picked index is erased from the active list, whatever the
  size of the list and the value of \<open>k\<close>; \<open>k\<close>, the kernel and the grid are unchanged.
\<close>

theorem exhausted_always_erases:
  assumes "s_actives st \<noteq> []"
    and "gen_probes g num_probes n st = Inr probes"
    and "nearest_loop probes (None, 4 * min_dist * min_dist, False) = (np, nd, False)"
  shows "iteration g min_dist num_probes n st =
           Inr (st\<lparr>s_actives := erase_at (pick_pos g n st) (s_actives st)\<rparr>) \<and>
         length (erase_at (pick_pos g n st) (s_actives st)) = length (s_actives st) - 1"
  using assms by (simp add: iteration_def length_erase_at pick_pos_def)

theorem exhausted_always_erases_witness:
  "s_actives \<lparr>s_kernel = [seed, pC], s_k = 1, s_actives = [0, 1], s_occupancy = occC1\<rparr> \<noteq> [] \<and>
   gen_probes gC 1 1
     \<lparr>s_kernel = [seed, pC], s_k = 1, s_actives = [0, 1], s_occupancy = occC1\<rparr> =
     Inr [((7 / 20, 4 / 5), 9 / 20)] \<and>
   nearest_loop [((7 / 20, 4 / 5), 9 / 20)] (None, 4 * (3 / 10) * (3 / 10), False) =
     (None, 4 * (3 / 10) * (3 / 10), False) \<and>
   iteration gC (3 / 10) 1 1
     \<lparr>s_kernel = [seed, pC], s_k = 1, s_actives = [0, 1], s_occupancy = occC1\<rparr> =
     Inr \<lparr>s_kernel = [seed, pC], s_k = 1, s_actives = [0], s_occupancy = occC1\<rparr>"
proof -
  have g: "gen_probes gC 1 1
     \<lparr>s_kernel = [seed, pC], s_k = 1, s_actives = [0, 1], s_occupancy = occC1\<rparr> =
     Inr [((7 / 20, 4 / 5), 9 / 20)]"
    by (simp add: gen_C1)
  have n: "nearest_loop [((7 / 20, 4 / 5), 9 / 20)] (None, 4 * (3 / 10) * (3 / 10), False) =
     (None, 4 * (3 / 10) * (3 / 10), False)"
    by simp
  have e: "erase_at (pick_pos gC 1
        \<lparr>s_kernel = [seed, pC], s_k = 1, s_actives = [0, 1], s_occupancy = occC1\<rparr>) [0, 1] = [0::nat]"
    by (simp add: pick_pos_def gC_def erase_at_def)
  from exhausted_always_erases[OF _ g n] g n e show ?thesis by simp
qed

text \<open>
  C7 (as specified, refuted). The statement: with \<open>N = 0\<close>, \<open>min_dist \<le> 0\<close>, \<open>min_dist \<ge> 1\<close> or
  \<open>num_probes = 0\<close> the call reports a precondition violation and writes nothing. The
  code checks none of these. With \<open>N = 1\<close>, \<open>min_dist = 1\<close> and \<open>num_probes = 0\<close> it writes
  the seed into slot 0 and returns 1.
\<close>

theorem precondition_counterexample:
  "poisson_square gA [(0, 0)] 1 0 = Inr (1, [seed]) \<and> [seed] \<noteq> [(0, 0)]"
  by (simp add: poisson_square_def poisson_square_trace_def init_one kernel_set_def
      mask_at_def mask_offset_def to_int_def seed_def main_loop.simps)

text \<open>
  C7 (as the code behaves): the call checks no precondition. For \<open>N \<ge> 1\<close> and
  \<open>min_dist \<ge> 1/1000\<close> (a grid of at most \<open>1415\<^sup>2\<close> cells, inside the range of \<^verbatim>\<open>int\<close>),
  also when \<open>min_dist \<ge> 1\<close>, a call with \<open>num_probes = 0\<close> or with \<open>N = 1\<close> returns normally:
  it writes the seed \<open>(0.5, 0.5)\<close> into slot 0, leaves the other slots, and returns 1.
\<close>

theorem no_precondition_check:
  assumes md: "1 / 1000 \<le> min_dist" and ne: "kern \<noteq> []"
    and c: "num_probes = 0 \<or> length kern = 1"
  shows "poisson_square g kern min_dist num_probes = Inr (1, kern[0 := seed])"
proof -
  from md have pos: "0 < min_dist" by simp
  from init_grid_ok[OF pos] obtain m where m: "poisson_square_map_init min_dist = Inr m" "grid_ok m"
    "\<forall>i < length (m_mask m). m_mask m ! i = None" by blast
  define occ1 where "occ1 = m\<lparr>m_mask := (m_mask m)[nat (mask_offset m seed) := Some 0]\<rparr>"
  define st0 where "st0 = \<lparr>s_kernel = kern[0 := seed], s_k = 0, s_actives = [0], s_occupancy = occ1\<rparr>"
  have mk: "mask_at m seed 0 = Inr occ1"
    using seed_mask[OF m(2,3)] by (simp add: occ1_def)
  have tr: "poisson_square_trace g kern min_dist num_probes = main_loop g min_dist num_probes 0 st0"
    using ne m(1) mk by (simp add: poisson_square_trace_def kernel_set_def st0_def)
  have "\<exists>st. snd (main_loop g min_dist num_probes 0 st0) = Inr st \<and> s_k st = 0 \<and>
          s_kernel st = kern[0 := seed]"
  proof (cases "length kern = 1")
    case True
    then show ?thesis by (subst main_loop.simps) (simp add: st0_def)
  next
    case False
    with c ne have np: "num_probes = 0" and len: "0 < length kern - 1"
      by (auto simp: Suc_lessI)
    have gp: "gen_probes g num_probes 0 st0 = Inr []"
      using ne by (simp add: gen_probes_def np pick_pos_def st0_def kernel_get_def)
    have it: "iteration g min_dist num_probes 0 st0 = Inr (st0\<lparr>s_actives := []\<rparr>)"
      by (simp add: iteration_def gp) (simp add: st0_def pick_pos_def erase_at_def)
    have "main_loop g min_dist num_probes 0 st0 =
        main_loop g min_dist num_probes (Suc 0) (st0\<lparr>s_actives := []\<rparr>)"
      using len it by (subst main_loop.simps) (simp add: st0_def)
    also have "\<dots> = (Suc 0, Inr (st0\<lparr>s_actives := []\<rparr>))"
      by (subst main_loop.simps) simp
    finally show ?thesis by (simp add: st0_def)
  qed
  then show ?thesis using tr by (auto simp: poisson_square_def)
qed

theorem no_precondition_check_witness:
  "(1 / 1000 :: real) \<le> 1 \<and> [(0, 0), (3, 3) :: vec2] \<noteq> [] \<and>
   poisson_square gA [(0, 0), (3, 3)] 1 0 = Inr (1, [seed, (3, 3)])"
  using no_precondition_check[of 1 "[(0, 0), (3, 3)]" 0 gA] by simp




text \<open>
  C6 (as specified, refuted). The statement: the probe selected is the one with the least recorded
  distance among those with a non-negative one, and of several with that distance the
  first in generation order. The loop replaces the candidate whenever the new distance
  is not greater, so of several the last wins. In run T both probes are recorded with
  \<open>9/100\<close>, and the second, \<open>(0.5, 0.8)\<close>, is accepted.
\<close>

theorem tie_break_counterexample:
  "gen_probes gT 2 0
     \<lparr>s_kernel = [seed, (0, 0)], s_k = 0, s_actives = [0], s_occupancy = occA0\<rparr> =
     Inr [((4 / 5, 1 / 2), 9 / 100), ((1 / 2, 4 / 5), 9 / 100)] \<and>
   nearest_loop [((4 / 5, 1 / 2), 9 / 100), ((1 / 2, 4 / 5), 9 / 100)]
       (None, 4 * (1 / 5) * (1 / 5), False) = (Some (1 / 2, 4 / 5), 9 / 100, True) \<and>
   iteration gT (1 / 5) 2 0
     \<lparr>s_kernel = [seed, (0, 0)], s_k = 0, s_actives = [0], s_occupancy = occA0\<rparr> =
     Inr \<lparr>s_kernel = [seed, (1 / 2, 4 / 5)], s_k = 1, s_actives = [0, 1], s_occupancy = occT1\<rparr>"
  by (simp add: gen_T iter_T)

text \<open>
  C6 (as the code behaves): a probe is selected exactly when some probe has a recorded distance
  between 0 and \<open>4 min_dist\<^sup>2\<close>; the probe selected then has the least recorded distance
  among all probes with a non-negative one, and of several with that distance it is
  the last in generation order.
\<close>

theorem nearest_selection:
  assumes "nearest_loop probes (None, 4 * min_dist * min_dist, False) = (np, nd, found)"
  shows "(found \<longleftrightarrow> (\<exists>(p, d)\<in>set probes. 0 \<le> d \<and> d \<le> 4 * min_dist * min_dist)) \<and>
         (found \<longrightarrow> (\<exists>xs p ys. probes = xs @ (p, nd) # ys \<and> np = Some p \<and> 0 \<le> nd \<and>
             (\<forall>(q, d)\<in>set probes. 0 \<le> d \<longrightarrow> nd \<le> d) \<and>
             (\<forall>(q, d)\<in>set ys. d \<noteq> nd)))"
proof (cases "\<exists>(p, d)\<in>set probes. 0 \<le> d \<and> d \<le> 4 * min_dist * min_dist")
  case True
  from nearest_loop_select[OF True, of None False] assms
  obtain xs p ys where r: "probes = xs @ (p, nd) # ys" "np = Some p" "found" "0 \<le> nd"
     "\<forall>(q, d)\<in>set xs. d < 0 \<or> nd \<le> d" "\<forall>(q, d)\<in>set ys. d < 0 \<or> nd < d" by auto
  have "\<forall>(q, d)\<in>set probes. 0 \<le> d \<longrightarrow> nd \<le> d" using r(1,5,6) by auto
  moreover have "\<forall>(q, d)\<in>set ys. d \<noteq> nd" using r(4,6) by auto
  ultimately show ?thesis using True r(1-4) by blast
next
  case False
  then have "\<forall>(p, d)\<in>set probes. d < 0 \<or> 4 * min_dist * min_dist < d" by auto
  from nearest_loop_skip[OF this, of None False] assms False show ?thesis by simp
qed

theorem nearest_selection_witness:
  "nearest_loop [(pB, 1 / 20 :: real), (pC, - 1), (pP, 1 / 25), (seed, 1 / 25), (pC, 1 / 2)]
       (None, 4 * (1 / 5) * (1 / 5), False) = (Some seed, 1 / 25, True) \<and>
   (\<exists>(p, d)\<in>set [(pB, 1 / 20 :: real), (pC, - 1), (pP, 1 / 25), (seed, 1 / 25), (pC, 1 / 2)].
       0 \<le> d \<and> d \<le> 4 * (1 / 5) * (1 / 5)) \<and>
   (\<exists>xs p ys. [(pB, 1 / 20 :: real), (pC, - 1), (pP, 1 / 25), (seed, 1 / 25), (pC, 1 / 2)] =
        xs @ (p, 1 / 25 :: real) # ys \<and> Some seed = Some p \<and> (0 :: real) \<le> 1 / 25 \<and>
        (\<forall>(q, d)\<in>set [(pB, 1 / 20 :: real), (pC, - 1), (pP, 1 / 25), (seed, 1 / 25), (pC, 1 / 2)].
            0 \<le> d \<longrightarrow> 1 / 25 \<le> d) \<and>
        (\<forall>(q, d)\<in>set ys. d \<noteq> 1 / 25))"
proof -
  have n: "nearest_loop [(pB, 1 / 20 :: real), (pC, - 1), (pP, 1 / 25), (seed, 1 / 25), (pC, 1 / 2)]
       (None, 4 * (1 / 5) * (1 / 5), False) = (Some seed, 1 / 25, True)"
    by simp
  from nearest_selection[OF n]
  have "(\<exists>(p, d)\<in>set [(pB, 1 / 20 :: real), (pC, - 1), (pP, 1 / 25), (seed, 1 / 25), (pC, 1 / 2)].
       0 \<le> d \<and> d \<le> 4 * (1 / 5) * (1 / 5)) \<and>
   (\<exists>xs p ys. [(pB, 1 / 20 :: real), (pC, - 1), (pP, 1 / 25), (seed, 1 / 25), (pC, 1 / 2)] =
        xs @ (p, 1 / 25 :: real) # ys \<and> Some seed = Some p \<and> (0 :: real) \<le> 1 / 25 \<and>
        (\<forall>(q, d)\<in>set [(pB, 1 / 20 :: real), (pC, - 1), (pP, 1 / 25), (seed, 1 / 25), (pC, 1 / 2)].
            0 \<le> d \<longrightarrow> 1 / 25 \<le> d) \<and>
        (\<forall>(q, d)\<in>set ys. d \<noteq> 1 / 25))"
    by (simp only: simp_thms)
  with n show ?thesis by (rule conjI)
qed

text \<open>
  C5 (violated by the code). The statement: every accepted point lies in \<open>[0, 1)\<^sup>2\<close>; for
  every \<open>min_dist\<close> in \<open>(0, 1)\<close> the single wrap of a probe at radius \<open>r\<close> in
  \<open>[min_dist, 2 min_dist)\<close> around a point of the unit square gives a point of the unit
  square. The wrap of the code misses the square in two ways.

  With \<open>min_dist = 3/10\<close>, the seed, radius \<open>1/2 + 2\<^sup>-\<^sup>3\<^sup>0\<close> and angle \<open>\<pi>\<close> the first
  coordinate of the probe is \<open>-2\<^sup>-\<^sup>3\<^sup>0\<close>, and \<^verbatim>\<open>probe.x += 1.0\<close> stores the sum \<open>1 - 2\<^sup>-\<^sup>3\<^sup>0\<close>
  rounded to \<^verbatim>\<open>T\<close>. For \<^verbatim>\<open>T = float\<close> the neighbours of that sum are \<open>1 - 2\<^sup>-\<^sup>2\<^sup>4\<close> and \<open>1\<close>,
  and \<open>1\<close> is the nearer: the probe is \<open>(1, 0.5)\<close>. It is not masked, its recorded
  distance is \<open>1/4 \<le> 4 min_dist\<^sup>2\<close>, so it is accepted, and \<open>mask\<close> stores it. The sum as
  \<open>wrap_coord\<close> has it is exact; the steps after the rounding are those of the model.

  With \<open>min_dist = 9/10\<close>, the seed, radius \<open>8/5\<close> and angle 0 the probe is \<open>(2.1, 0.5)\<close>
  and the single subtraction leaves \<open>(1.1, 0.5)\<close>.
\<close>

theorem wrap_leaves_unit_square:
  "(3 / 10 :: real) \<le> 1 / 2 + 1 / 2 ^ 30 \<and> (1 / 2 + 1 / 2 ^ 30 :: real) < 2 * (3 / 10) \<and>
   in_unit seed \<and>
   fst seed + (1 / 2 + 1 / 2 ^ 30) * cos pi = - (1 / 2 ^ 30) \<and>
   snd seed + (1 / 2 + 1 / 2 ^ 30) * sin pi = 1 / 2 \<and>
   wrap_coord (- (1 / 2 ^ 30)) = 1 - 1 / 2 ^ 30 \<and>
   1 - 1 / 2 ^ 24 < wrap_coord (- (1 / 2 ^ 30)) \<and> wrap_coord (- (1 / 2 ^ 30)) < 1 \<and>
   1 - wrap_coord (- (1 / 2 ^ 30)) < wrap_coord (- (1 / 2 ^ 30)) - (1 - 1 / 2 ^ 24) \<and>
   masked occC0 (1, 1 / 2) [seed, (0, 0)] = Inr False \<and>
   probe_dist seed (1, 1 / 2) = 1 / 4 \<and> (1 / 4 :: real) \<le> 4 * (3 / 10) * (3 / 10) \<and>
   mask_at occC0 (1, 1 / 2) 1 = Inr occE1 \<and>
   \<not> in_unit (1, 1 / 2) \<and>
   (9 / 10 :: real) \<le> 8 / 5 \<and> (8 / 5 :: real) < 2 * (9 / 10) \<and>
   make_probe seed (8 / 5) 0 = (11 / 10, 1 / 2) \<and> \<not> in_unit (make_probe seed (8 / 5) 0)"
proof -
  have a: "(3 / 10 :: real) \<le> 1 / 2 + 1 / 2 ^ 30 \<and> (1 / 2 + 1 / 2 ^ 30 :: real) < 2 * (3 / 10)"
    by simp
  have b: "fst seed + (1 / 2 + 1 / 2 ^ 30) * cos pi = - (1 / 2 ^ 30) \<and>
      snd seed + (1 / 2 + 1 / 2 ^ 30) * sin pi = 1 / 2"
    by (simp add: seed_def)
  have c: "wrap_coord (- (1 / 2 ^ 30)) = 1 - 1 / 2 ^ 30"
    by (simp add: wrap_coord_def)
  have d: "1 - 1 / 2 ^ 24 < wrap_coord (- (1 / 2 ^ 30)) \<and> wrap_coord (- (1 / 2 ^ 30)) < 1 \<and>
      1 - wrap_coord (- (1 / 2 ^ 30)) < wrap_coord (- (1 / 2 ^ 30)) - (1 - 1 / 2 ^ 24)"
    unfolding c by simp
  have e: "probe_dist seed (1, 1 / 2) = 1 / 4 \<and> (1 / 4 :: real) \<le> 4 * (3 / 10) * (3 / 10)"
    by (simp add: probe_dist_def vabs_def vsub_def dot_def seed_def)
  have f: "mask_at occC0 (1, 1 / 2) 1 = Inr occE1"
    using mask_E0 by simp
  have g: "\<not> in_unit (1, 1 / 2)"
    by (simp add: in_unit_def)
  have h: "(9 / 10 :: real) \<le> 8 / 5 \<and> (8 / 5 :: real) < 2 * (9 / 10)"
    by simp
  have i: "make_probe seed (8 / 5) 0 = (11 / 10, 1 / 2)"
    by (simp add: make_probe_def wrap_coord_def seed_def)
  have j: "\<not> in_unit (make_probe seed (8 / 5) 0)"
    unfolding i by (simp add: in_unit_def)
  from a b c d e f g h i j seed_in_unit masked_E0[of "(0, 0)"] show ?thesis by blast
qed

text \<open>
  C8 (violated by the code). The statement: \<open>mask\<close> clamps the cell coordinates to
  \<open>[0, S)\<close>, so that the store is in bounds for every point passed to it; and a store
  into a cell that is not \<^verbatim>\<open>m_none\<close> fails. The code does not clamp, and a run can pass it
  a point whose offset is outside the array. Run D: \<open>N = 3\<close>, \<open>min_dist = 3/10\<close> (side 5,
  25 cells), one probe per iteration. Iteration 0 picks the seed and draws radius \<open>3/8\<close>
  and angle \<open>\<pi>/2\<close>, which gives \<open>pD = (0.5, 0.875)\<close>. Iteration 1 picks index 1 and draws
  radius \<open>1/2 + 2\<^sup>-\<^sup>3\<^sup>0\<close> and angle \<open>\<pi>\<close>: the first coordinate of the probe is \<open>-2\<^sup>-\<^sup>3\<^sup>0\<close>, and
  \<^verbatim>\<open>probe.x += 1.0\<close> rounds to \<open>1\<close> in \<^verbatim>\<open>float\<close> (see C5). The probe \<open>(1, 0.875)\<close> is not
  masked and its recorded distance is \<open>1/4 \<le> 4 min_dist\<^sup>2\<close>, so it is accepted; its cell
  coordinates are \<open>(5, 4)\<close> and its offset is \<open>4 * 5 + 5 = 25\<close>, one past the last cell.
\<close>

theorem mask_out_of_range_run_D:
  "poisson_square_map_init (3 / 10) =
     Inr \<lparr>m_side = 5, m_dist2 = 9 / 100, m_mask = replicate 25 None\<rparr> \<and>
   mask_at \<lparr>m_side = 5, m_dist2 = 9 / 100, m_mask = replicate 25 None\<rparr> seed 0 = Inr occC0 \<and>
   iteration gD (3 / 10) 1 0
     \<lparr>s_kernel = [seed, (0, 0), (0, 0)], s_k = 0, s_actives = [0], s_occupancy = occC0\<rparr> =
     Inr \<lparr>s_kernel = [seed, pD, (0, 0)], s_k = 1, s_actives = [0, 1], s_occupancy = occD1\<rparr> \<and>
   3 / 10 \<le> radius_draw gD 1 0 \<and> radius_draw gD 1 0 < 2 * (3 / 10) \<and>
   fst pD + radius_draw gD 1 0 * cos (angle_draw gD 1 0) = - (1 / 2 ^ 30) \<and>
   snd pD + radius_draw gD 1 0 * sin (angle_draw gD 1 0) = 7 / 8 \<and>
   masked occD1 (1, 7 / 8) [seed, pD, (0, 0)] = Inr False \<and>
   probe_dist pD (1, 7 / 8) = 1 / 4 \<and> (1 / 4 :: real) \<le> 4 * (3 / 10) * (3 / 10) \<and>
   to_int (1 * 5) = 5 \<and> to_int (7 / 8 * 5) = 4 \<and>
   mask_offset occD1 (1, 7 / 8) = 25 \<and> length (m_mask occD1) = 25 \<and>
   mask_at occD1 (1, 7 / 8) 2 = Inl OutOfBounds"
proof -
  have a: "probe_dist pD (1, 7 / 8) = 1 / 4 \<and> (1 / 4 :: real) \<le> 4 * (3 / 10) * (3 / 10)"
    by (simp add: probe_dist_def vabs_def vsub_def dot_def pD_def)
  have b: "to_int (1 * 5) = 5 \<and> to_int (7 / 8 * 5) = 4 \<and>
      mask_offset occD1 (1, 7 / 8) = 25 \<and> length (m_mask occD1) = 25"
    by (simp add: to_int_def mask_offset_def occD1_def)
  have c: "3 / 10 \<le> radius_draw gD 1 0 \<and> radius_draw gD 1 0 < 2 * (3 / 10) \<and>
      fst pD + radius_draw gD 1 0 * cos (angle_draw gD 1 0) = - (1 / 2 ^ 30) \<and>
      snd pD + radius_draw gD 1 0 * sin (angle_draw gD 1 0) = 7 / 8"
    by (simp add: gD_def pD_def)
  have d: "iteration gD (3 / 10) 1 0
     \<lparr>s_kernel = [seed, (0, 0), (0, 0)], s_k = 0, s_actives = [0], s_occupancy = occC0\<rparr> =
     Inr \<lparr>s_kernel = [seed, pD, (0, 0)], s_k = 1, s_actives = [0, 1], s_occupancy = occD1\<rparr>"
    using iter_D0 by simp
  from a b c d init_three_tenths mask_seed_three_tenths masked_D1[of "(0, 0)"] mask_D1[of 2]
  show ?thesis by blast
qed

end
